theory Spec2Isabelle
  imports Main
begin

section \<open>Python values, applications and errors\<close>

text \<open>
  The values the extension reads from the application's configuration.  Only their
  truth value is ever inspected by \<^verbatim>\<open>flask_cqlalchemy/__init__.py\<close>; everything
  else is handed to the driver unchanged.
\<close>

datatype pyval =
    PNone
  | PBool bool
  | PInt int
  | PStr string
  | PList "pyval list"
  | PDict "(string \<times> pyval) list"

text \<open>Python's truth value testing, as used by \<^verbatim>\<open>not x\<close> and \<^verbatim>\<open>x and y\<close>.\<close>

fun truthy :: "pyval \<Rightarrow> bool" where
  "truthy PNone = False"
| "truthy (PBool b) = b"
| "truthy (PInt i) = (i \<noteq> 0)"
| "truthy (PStr s) = (s \<noteq> [])"
| "truthy (PList xs) = (xs \<noteq> [])"
| "truthy (PDict kvs) = (kvs \<noteq> [])"

text \<open>The host application: \<^verbatim>\<open>app.config\<close> is a dictionary with string keys.\<close>

record app_t =
  config :: "(string \<times> pyval) list"

text \<open>\<^verbatim>\<open>app.config.get(key, default)\<close>.\<close>

definition config_get :: "app_t \<Rightarrow> string \<Rightarrow> pyval \<Rightarrow> pyval" where
  "config_get a k d = (case map_of (config a) k of None \<Rightarrow> d | Some v \<Rightarrow> v)"

text \<open>
  The exceptions that can leave the extension: \<^verbatim>\<open>NoConfig\<close> is its own; a missing
  configuration key, a missing attribute and an ill-formed call are raised by Python;
  \<open>DriverError\<close> stands for whatever the driver raises, which the extension never
  catches.
\<close>

datatype error =
    NoConfig
  | KeyError string
  | AttributeError string
  | TypeError string
  | DriverError

section \<open>The driver and the process-wide state\<close>

text \<open>
  A cluster client and a session are objects with an identity.  Each call of the
  driver's \<^verbatim>\<open>connection.setup\<close> that returns makes one new pair, numbered by an
  allocation counter.
\<close>

datatype obj = Cluster nat | Session nat

fun obj_id :: "obj \<Rightarrow> nat" where
  "obj_id (Cluster n) = n"
| "obj_id (Session n) = n"

text \<open>
  The arguments of \<^verbatim>\<open>connection.setup(hosts, keyspace, consistency=..., lazy_connect=...,
  retry_connect=..., **setup_kwargs)\<close>.
\<close>

record setup_args =
  arg_hosts :: pyval
  arg_keyspace :: pyval
  arg_consistency :: pyval
  arg_lazy_connect :: pyval
  arg_retry_connect :: pyval
  arg_kwargs :: pyval

text \<open>The calls into the driver, logged in the order in which they are made.\<close>

datatype call = Shutdown obj | Setup setup_args | SyncTable nat

text \<open>
  A mapped class: its \<^verbatim>\<open>__abstract__\<close> flag and its direct base classes.  Classes are
  numbered in the order of their creation; class \<open>0\<close> is the driver's \<^verbatim>\<open>models.Model\<close>.
\<close>

record cls =
  cname :: string
  abstract :: bool
  bases :: "nat list"

text \<open>The functions that \<^verbatim>\<open>init_app\<close> registers with uWSGI and Celery.\<close>

datatype hook = cassandra_init_uwsgi | cassandra_init_celery | cassandra_shutdown_celery

text \<open>
  Everything that is global to the process:
  \<^item> \<open>conn_cluster\<close>, \<open>conn_session\<close>: the driver's module attributes
    \<^verbatim>\<open>cassandra.cqlengine.connection.cluster\<close> and \<^verbatim>\<open>.session\<close>, the current
    connection handle;
  \<^item> \<open>DEFAULT_KEYSPACE\<close>: \<^verbatim>\<open>cassandra.cqlengine.models.DEFAULT_KEYSPACE\<close>;
  \<^item> \<open>cluster\<close>, \<open>session\<close>: the names of that spelling in the namespace of
    \<^verbatim>\<open>flask_cqlalchemy\<close>, bound by the \<^verbatim>\<open>from ... import cluster, session\<close> statement
    of line 13 and assigned nowhere else in the module;
  \<^item> \<open>live\<close>: the cluster clients and sessions that were opened and not shut down;
  \<^item> \<open>next_obj\<close>: the allocation counter for new clients and sessions;
  \<^item> \<open>setup_raises\<close>: the arguments on which \<^verbatim>\<open>connection.setup\<close>, once entered,
    raises (unreachable hosts, a keyspace or an option the driver rejects);
  \<^item> \<open>setup_sets_keyspace\<close>: the arguments for which \<^verbatim>\<open>connection.setup\<close> makes its
    keyspace argument the default keyspace;
  \<^item> \<open>classes\<close>: the mapped classes defined so far;
  \<^item> \<open>has_uwsgi\<close>, \<open>has_celery\<close>: whether the imports of lines 57 and 66 succeed;
  \<^item> \<open>postfork_chain\<close>, \<open>worker_process_init\<close>, \<open>worker_shutting_down\<close>,
    \<open>beat_init\<close>: the receivers registered with the two frameworks;
  \<^item> \<open>calls\<close>: the log of driver calls.
\<close>

record world =
  conn_cluster :: "obj option"
  conn_session :: "obj option"
  DEFAULT_KEYSPACE :: pyval
  cluster :: "obj option"
  session :: "obj option"
  live :: "obj set"
  next_obj :: nat
  setup_raises :: "setup_args \<Rightarrow> bool"
  setup_sets_keyspace :: "setup_args \<Rightarrow> bool"
  classes :: "cls list"
  has_uwsgi :: bool
  has_celery :: bool
  postfork_chain :: "hook list"
  worker_process_init :: "hook list"
  worker_shutting_down :: "hook list"
  beat_init :: "hook list"
  calls :: "call list"

text \<open>
  The driver is not part of this repository.  The extension consumes four of its
  operations (section 6 of the spec: ``connect(hosts, keyspace, consistency,
  lazy_connect, retry_connect, **extra) \<open>\<rightarrow>\<close> (client, session); client.shutdown();
  session.shutdown(); table-sync(model); default-keyspace mutable global'').
\<close>

text \<open>
  Modelled from the spec: \<^verbatim>\<open>client.shutdown()\<close> and \<^verbatim>\<open>session.shutdown()\<close>, of which the
  driver's code is missing.  The object stops being live; on an object that is already
  shut down nothing changes.
\<close>

definition obj_shutdown :: "obj \<Rightarrow> world \<Rightarrow> world" where
  "obj_shutdown x w = w\<lparr>live := live w - {x}, calls := calls w @ [Shutdown x]\<rparr>"

text \<open>
  Modelled from the spec: \<^verbatim>\<open>connection.setup\<close>, of which the driver's code is missing.
  It either raises, or opens a new client and a new session and makes them the
  process-wide handle.  It shuts nothing down.  The spec does not say on which
  arguments it raises, nor whether it touches the default keyspace: both are parameters
  of the process, \<open>setup_raises\<close> and \<open>setup_sets_keyspace\<close>, and a theorem that needs
  one of them to have a certain value says so in a hypothesis.
\<close>

definition connection_setup :: "setup_args \<Rightarrow> world \<Rightarrow> (error + unit) \<times> world" where
  "connection_setup a w =
     (let w1 = w\<lparr>calls := calls w @ [Setup a],
                  DEFAULT_KEYSPACE :=
                    (if setup_sets_keyspace w a then arg_keyspace a else DEFAULT_KEYSPACE w)\<rparr>
      in if setup_raises w a then (Inl DriverError, w1)
         else (Inr (),
               w1\<lparr>conn_cluster := Some (Cluster (next_obj w)),
                  conn_session := Some (Session (next_obj w)),
                  live := live w \<union> {Cluster (next_obj w), Session (next_obj w)},
                  next_obj := Suc (next_obj w)\<rparr>))"

text \<open>
  Modelled from the spec: the table synchronisation of one class, of which the
  driver's code is missing.  Only the call is recorded.
\<close>

definition sync_table :: "nat \<Rightarrow> world \<Rightarrow> world" where
  "sync_table c w = w\<lparr>calls := calls w @ [SyncTable c]\<rparr>"

text \<open>
  Line 13, \<^verbatim>\<open>from cassandra.cqlengine.connection import cluster, session\<close>: the two
  names are bound to the values the driver's attributes have when the statement runs.
\<close>

definition import_names :: "world \<Rightarrow> world" where
  "import_names w = w\<lparr>cluster := conn_cluster w, session := conn_session w\<rparr>"

section \<open>The CQLAlchemy object\<close>

text \<open>
  The attributes of a \<^verbatim>\<open>CQLAlchemy\<close> instance that carry state.  \<open>m_hosts\<close> and
  \<open>m_keyspace\<close> are \<^verbatim>\<open>_hosts_\<close> and \<^verbatim>\<open>_keyspace_\<close>; \<open>m_consistency\<close>,
  \<open>m_lazy_connect\<close>, \<open>m_retry_connect\<close> and \<open>m_setup_kwargs\<close> are \<^verbatim>\<open>_consistency\<close>,
  \<^verbatim>\<open>_lazy_connect\<close>, \<^verbatim>\<open>_retry_connect\<close> and \<^verbatim>\<open>_setup_kwargs\<close>.  These six exist
  only once \<^verbatim>\<open>init_app\<close> has assigned them: \<open>None\<close> is an attribute that is not set.
  The constructor's other attributes (\<^verbatim>\<open>columns\<close>, \<^verbatim>\<open>UserType\<close>, \<^verbatim>\<open>sync_table\<close>,
  \<^verbatim>\<open>sync_type\<close>, \<^verbatim>\<open>create_keyspace_simple\<close>) are references to the driver that no
  method of the class reads.
\<close>

record manager =
  app :: "app_t option"
  Model :: nat
  m_hosts :: "pyval option"
  m_keyspace :: "pyval option"
  m_consistency :: "pyval option"
  m_lazy_connect :: "pyval option"
  m_retry_connect :: "pyval option"
  m_setup_kwargs :: "pyval option"

text \<open>The driver's \<^verbatim>\<open>models.Model\<close>, the first mapped class.\<close>

definition models_Model :: nat where
  "models_Model = 0"

text \<open>
  Lines 85-89.  The tests are on the module's own names \<open>cluster\<close> and \<open>session\<close>;
  \<^verbatim>\<open>self\<close> is not used.
\<close>

definition shutdown_connection :: "world \<Rightarrow> world" where
  "shutdown_connection w =
     (let w1 = (case cluster w of None \<Rightarrow> w | Some c \<Rightarrow> obj_shutdown c w)
      in case session w1 of None \<Rightarrow> w1 | Some s \<Rightarrow> obj_shutdown s w1)"

text \<open>
  The keywords that the call of lines 93-98 passes by name, next to
  \<^verbatim>\<open>**self._setup_kwargs\<close>.
\<close>

definition explicit_keywords :: "string list" where
  "explicit_keywords = [''consistency'', ''lazy_connect'', ''retry_connect'']"

text \<open>
  What Python does with \<^verbatim>\<open>**self._setup_kwargs\<close> before \<^verbatim>\<open>connection.setup\<close> is
  entered: a value that is not a mapping raises \<^verbatim>\<open>TypeError\<close>, and so does a mapping
  with a key that the call already passes by name (the first such key is reported).
\<close>

fun kwargs_error :: "pyval \<Rightarrow> error option" where
  "kwargs_error (PDict kvs) =
     (case filter (\<lambda>k. k \<in> set explicit_keywords) (map fst kvs) of
        [] \<Rightarrow> None
      | k # ks \<Rightarrow> Some (TypeError k))"
| "kwargs_error v = Some (TypeError ''**'')"

text \<open>
  Lines 91-98.  The attributes are read in the order of the argument list; the first
  one that is not set raises \<^verbatim>\<open>AttributeError\<close>.  Then the keyword arguments are put
  together, and only then the driver is called.
\<close>

definition setup_connection :: "manager \<Rightarrow> world \<Rightarrow> (error + unit) \<times> world" where
  "setup_connection m w =
     (let w1 = shutdown_connection w in
      (case m_hosts m of None \<Rightarrow> (Inl (AttributeError ''_hosts_''), w1) | Some h \<Rightarrow>
      (case m_keyspace m of None \<Rightarrow> (Inl (AttributeError ''_keyspace_''), w1) | Some k \<Rightarrow>
      (case m_consistency m of None \<Rightarrow> (Inl (AttributeError ''_consistency''), w1) | Some c \<Rightarrow>
      (case m_lazy_connect m of None \<Rightarrow> (Inl (AttributeError ''_lazy_connect''), w1) | Some l \<Rightarrow>
      (case m_retry_connect m of None \<Rightarrow> (Inl (AttributeError ''_retry_connect''), w1) | Some r \<Rightarrow>
      (case m_setup_kwargs m of None \<Rightarrow> (Inl (AttributeError ''_setup_kwargs''), w1) | Some kw \<Rightarrow>
      (case kwargs_error kw of Some e \<Rightarrow> (Inl e, w1) | None \<Rightarrow>
         connection_setup
           \<lparr>arg_hosts = h, arg_keyspace = k, arg_consistency = c,
            arg_lazy_connect = l, arg_retry_connect = r, arg_kwargs = kw\<rparr> w1))))))))"

text \<open>Lines 56-80: the receivers are registered when the framework can be imported.\<close>

definition register_hooks :: "world \<Rightarrow> world" where
  "register_hooks w =
     (let w1 = (if has_uwsgi w
                then w\<lparr>postfork_chain := postfork_chain w @ [cassandra_init_uwsgi]\<rparr>
                else w)
      in if has_celery w1
         then w1\<lparr>worker_process_init := worker_process_init w1 @ [cassandra_init_celery],
                 worker_shutting_down := worker_shutting_down w1 @ [cassandra_shutdown_celery],
                 beat_init := beat_init w1 @ [cassandra_init_celery]\<rparr>
         else w1)"

text \<open>
  Lines 38-83.  \<^verbatim>\<open>app.config[key]\<close> raises \<^verbatim>\<open>KeyError\<close> for a missing key, after
  the assignments before it have been made.  The condition of line 51 is
  \<^verbatim>\<open>not self._hosts_ and self._keyspace_\<close>, in which \<^verbatim>\<open>not\<close> binds tighter than
  \<^verbatim>\<open>and\<close>.  \<open>configured a h k m\<close> is the object after the assignments of lines
  44-49, with \<open>h\<close> and \<open>k\<close> the values of the two required keys.  The result carries
  the manager and the world as the call leaves them, also when it raises.
\<close>

definition configured :: "app_t \<Rightarrow> pyval \<Rightarrow> pyval \<Rightarrow> manager \<Rightarrow> manager" where
  "configured a h k m =
     m\<lparr>m_hosts := Some h,
       m_keyspace := Some k,
       m_consistency := Some (config_get a ''CASSANDRA_CONSISTENCY'' (PInt 1)),
       m_lazy_connect := Some (config_get a ''CASSANDRA_LAZY_CONNECT'' (PBool False)),
       m_retry_connect := Some (config_get a ''CASSANDRA_RETRY_CONNECT'' (PBool False)),
       m_setup_kwargs := Some (config_get a ''CASSANDRA_SETUP_KWARGS'' (PDict []))\<rparr>"

definition init_app :: "app_t \<Rightarrow> manager \<Rightarrow> world \<Rightarrow> (error + unit) \<times> manager \<times> world" where
  "init_app a m w =
     (case map_of (config a) ''CASSANDRA_HOSTS'' of
        None \<Rightarrow> (Inl (KeyError ''CASSANDRA_HOSTS''), m, w)
      | Some h \<Rightarrow>
     (case map_of (config a) ''CASSANDRA_KEYSPACE'' of
        None \<Rightarrow> (Inl (KeyError ''CASSANDRA_KEYSPACE''), m\<lparr>m_hosts := Some h\<rparr>, w)
      | Some k \<Rightarrow>
          if \<not> truthy h \<and> truthy k
          then (Inl NoConfig, configured a h k m, w)
          else (case setup_connection (configured a h k m) (register_hooks w) of
                  (r, w1) \<Rightarrow> (r, configured a h k m, w1))))"

text \<open>
  Lines 26-36.  \<open>new_manager\<close> is the object after the assignments of lines 28-34.
  The constructor returns it unless \<^verbatim>\<open>init_app\<close> raises, in which case the caller
  receives the exception and no object.
\<close>

definition new_manager :: "app_t option \<Rightarrow> manager" where
  "new_manager ao =
     \<lparr>app = ao, Model = models_Model, m_hosts = None, m_keyspace = None,
      m_consistency = None, m_lazy_connect = None, m_retry_connect = None,
      m_setup_kwargs = None\<rparr>"

definition CQLAlchemy :: "app_t option \<Rightarrow> world \<Rightarrow> (error + manager) \<times> world" where
  "CQLAlchemy ao w =
     (case ao of
        None \<Rightarrow> (Inr (new_manager ao), w)
      | Some a \<Rightarrow>
          (case init_app a (new_manager ao) w of
             (Inl e, m1, w1) \<Rightarrow> (Inl e, w1)
           | (Inr u, m1, w1) \<Rightarrow> (Inr m1, w1)))"

text \<open>
  Lines 108-117.  \<^verbatim>\<open>self.app\<close> is the constructor's argument; when it is \<^verbatim>\<open>None\<close>,
  \<^verbatim>\<open>self.app.config\<close> raises \<^verbatim>\<open>AttributeError\<close>.
\<close>

definition set_keyspace :: "pyval \<Rightarrow> manager \<Rightarrow> world \<Rightarrow> (error + unit) \<times> manager \<times> world" where
  "set_keyspace keyspace_name m w =
     (let assign = (\<lambda>k. (Inr (), m\<lparr>m_keyspace := Some k\<rparr>, w\<lparr>DEFAULT_KEYSPACE := k\<rparr>))
      in if \<not> truthy keyspace_name
         then (case app m of
                 None \<Rightarrow> (Inl (AttributeError ''config''), m, w)
               | Some a \<Rightarrow>
                   (case map_of (config a) ''CASSANDRA_KEYSPACE'' of
                      None \<Rightarrow> (Inl (KeyError ''CASSANDRA_KEYSPACE''), m, w)
                    | Some k \<Rightarrow> assign k))
         else assign keyspace_name)"

section \<open>Subclass discovery and batch synchronisation\<close>

text \<open>
  \<^verbatim>\<open>cls.__subclasses__()\<close>: the classes that name \<open>c\<close> among their bases, in the order
  of their creation.  A class is created after its bases, so they all come after \<open>c\<close>.
\<close>

definition subclasses :: "cls list \<Rightarrow> nat \<Rightarrow> nat list" where
  "subclasses tbl c = filter (\<lambda>j. c \<in> set (bases (tbl ! j))) [Suc c ..< length tbl]"

text \<open>\<^verbatim>\<open>cls.__abstract__\<close>, for a class of the table.\<close>

definition is_abstract :: "cls list \<Rightarrow> nat \<Rightarrow> bool" where
  "is_abstract tbl c = (c < length tbl \<and> abstract (tbl ! c))"

text \<open>Lines 126-128.\<close>

fun flatten :: "'a list list \<Rightarrow> 'a list" where
  "flatten [] = []"
| "flatten (sublist # rest) = sublist @ flatten rest"

text \<open>Lines 131-136.\<close>

function get_subclasses :: "cls list \<Rightarrow> nat \<Rightarrow> nat list" where
  "get_subclasses tbl c =
     (if is_abstract tbl c
      then flatten (map (get_subclasses tbl) (subclasses tbl c))
      else [c])"
  by pat_completeness auto
termination
  by (relation "measure (\<lambda>(tbl, c). length tbl - c)") (auto simp: subclasses_def)

text \<open>Lines 100-106.\<close>

definition sync_db :: "manager \<Rightarrow> world \<Rightarrow> world" where
  "sync_db m w = foldl (\<lambda>w1 model. sync_table model w1) w (get_subclasses (classes w) (Model m))"

section \<open>Processes and sequences of calls\<close>

text \<open>
  A process in which the driver has just been loaded and nothing has connected yet:
  the driver's \<^verbatim>\<open>cluster\<close> and \<^verbatim>\<open>session\<close> attributes are \<^verbatim>\<open>None\<close>, there is no
  default keyspace and no class but \<^verbatim>\<open>models.Model\<close>, which is abstract.  Its driver
  never raises and makes the keyspace it is given the default keyspace; neither uWSGI
  nor Celery is installed.
\<close>

definition driver_loaded :: world where
  "driver_loaded =
     \<lparr>conn_cluster = None, conn_session = None, DEFAULT_KEYSPACE = PNone,
      cluster = None, session = None, live = {}, next_obj = 0,
      setup_raises = (\<lambda>a. False), setup_sets_keyspace = (\<lambda>a. True),
      classes = [\<lparr>cname = ''Model'', abstract = True, bases = []\<rparr>],
      has_uwsgi = False, has_celery = False,
      postfork_chain = [], worker_process_init = [], worker_shutting_down = [],
      beat_init = [], calls = []\<rparr>"

text \<open>The same process once \<^verbatim>\<open>flask_cqlalchemy\<close> has been imported.\<close>

definition fresh_process :: world where
  "fresh_process = import_names driver_loaded"

text \<open>The methods a caller or a registered receiver may invoke on a bound object.\<close>

datatype op = OpShutdown | OpSetup | OpSyncDb | OpSetKeyspace pyval | OpInitApp app_t

text \<open>
  One call.  An exception leaves the state as the call left it, so the state after the
  call is what matters for the next one, whether or not the caller catches.
\<close>

fun run_op :: "op \<Rightarrow> manager \<times> world \<Rightarrow> manager \<times> world" where
  "run_op OpShutdown (m, w) = (m, shutdown_connection w)"
| "run_op OpSetup (m, w) = (m, snd (setup_connection m w))"
| "run_op OpSyncDb (m, w) = (m, sync_db m w)"
| "run_op (OpSetKeyspace k) (m, w) = snd (set_keyspace k m w)"
| "run_op (OpInitApp a) (m, w) = snd (init_app a m w)"

fun run_ops :: "op list \<Rightarrow> manager \<times> world \<Rightarrow> manager \<times> world" where
  "run_ops [] s = s"
| "run_ops (x # xs) s = run_ops xs (run_op x s)"

text \<open>The driver calls made between an earlier state and a later one.\<close>

definition calls_since :: "world \<Rightarrow> world \<Rightarrow> call list" where
  "calls_since w w1 = drop (length (calls w)) (calls w1)"

text \<open>The state without the log of driver calls.\<close>

definition forget_calls :: "world \<Rightarrow> world" where
  "forget_calls w = w\<lparr>calls := []\<rparr>"

text \<open>The objects bound to the module's names \<open>cluster\<close> and \<open>session\<close>.\<close>

definition imported :: "world \<Rightarrow> obj list" where
  "imported w =
     (case cluster w of None \<Rightarrow> [] | Some c \<Rightarrow> [c]) @
     (case session w of None \<Rightarrow> [] | Some s \<Rightarrow> [s])"

text \<open>
  The objects bound to the module's names exist, so the allocation counter has passed
  them.  This holds when the import statement has run in a process whose handle, if
  any, was made by the driver, and every method keeps it.
\<close>

definition names_bound_before :: "world \<Rightarrow> bool" where
  "names_bound_before w = list_all (\<lambda>x. obj_id x < next_obj w) (imported w)"

text \<open>The connection handles of which the client or the session is live.\<close>

definition live_handles :: "world \<Rightarrow> nat set" where
  "live_handles w = obj_id ` live w"

text \<open>
  The abstract classes that \<open>get_subclasses tbl c\<close> enters, one entry for each time it
  enters one.
\<close>

function abstract_walk :: "cls list \<Rightarrow> nat \<Rightarrow> nat list" where
  "abstract_walk tbl c =
     (if is_abstract tbl c
      then c # flatten (map (abstract_walk tbl) (subclasses tbl c))
      else [])"
  by pat_completeness auto
termination
  by (relation "measure (\<lambda>(tbl, c). length tbl - c)") (auto simp: subclasses_def)

text \<open>The calls that assign the keyspace.\<close>

fun sets_keyspace :: "op \<Rightarrow> bool" where
  "sets_keyspace (OpSetKeyspace k) = True"
| "sets_keyspace (OpInitApp a) = True"
| "sets_keyspace x = False"

text \<open>The state in which the manager's keyspace and the default keyspace are both \<open>k\<close>.\<close>

definition keyspace_is :: "pyval \<Rightarrow> manager \<times> world \<Rightarrow> bool" where
  "keyspace_is k s = (m_keyspace (fst s) = Some k \<and> DEFAULT_KEYSPACE (snd s) = k)"

section \<open>Example configurations, processes and class hierarchies\<close>

text \<open>The configuration \<^verbatim>\<open>{hosts: ["10.0.0.1"], keyspace: "ks1"}\<close>.\<close>

definition example_app :: app_t where
  "example_app = \<lparr>config = [(''CASSANDRA_HOSTS'', PList [PStr ''10.0.0.1'']),
                            (''CASSANDRA_KEYSPACE'', PStr ''ks1'')]\<rparr>"

text \<open>The arguments \<^verbatim>\<open>connection.setup\<close> receives for it.\<close>

definition example_args :: setup_args where
  "example_args =
     \<lparr>arg_hosts = PList [PStr ''10.0.0.1''], arg_keyspace = PStr ''ks1'',
      arg_consistency = PInt 1, arg_lazy_connect = PBool False,
      arg_retry_connect = PBool False, arg_kwargs = PDict []\<rparr>"

text \<open>The object \<^verbatim>\<open>CQLAlchemy(app)\<close> returns for it.\<close>

definition example_manager :: manager where
  "example_manager =
     \<lparr>app = Some example_app, Model = models_Model,
      m_hosts = Some (PList [PStr ''10.0.0.1'']), m_keyspace = Some (PStr ''ks1''),
      m_consistency = Some (PInt 1), m_lazy_connect = Some (PBool False),
      m_retry_connect = Some (PBool False), m_setup_kwargs = Some (PDict [])\<rparr>"

text \<open>The object after \<^verbatim>\<open>db = CQLAlchemy()\<close> and \<^verbatim>\<open>db.init_app(app)\<close> for it.\<close>

definition unheld_manager :: manager where
  "unheld_manager =
     \<lparr>app = None, Model = models_Model,
      m_hosts = Some (PList [PStr ''10.0.0.1'']), m_keyspace = Some (PStr ''ks1''),
      m_consistency = Some (PInt 1), m_lazy_connect = Some (PBool False),
      m_retry_connect = Some (PBool False), m_setup_kwargs = Some (PDict [])\<rparr>"

text \<open>The process after \<^verbatim>\<open>CQLAlchemy(app)\<close> has returned in a fresh process.\<close>

definition bound_process :: world where
  "bound_process =
     fresh_process\<lparr>calls := [Setup example_args],
       conn_cluster := Some (Cluster 0), conn_session := Some (Session 0),
       DEFAULT_KEYSPACE := PStr ''ks1'',
       live := {Cluster 0, Session 0}, next_obj := 1\<rparr>"

text \<open>
  A process in which the driver was connected before \<^verbatim>\<open>flask_cqlalchemy\<close> was
  imported, so that the module's names are bound to that first client and session.
\<close>

definition late_process :: world where
  "late_process = import_names (snd (connection_setup example_args driver_loaded))"

text \<open>An empty host list with a keyspace, and an empty host list with an empty keyspace.\<close>

definition no_hosts_app :: app_t where
  "no_hosts_app = \<lparr>config = [(''CASSANDRA_HOSTS'', PList []),
                             (''CASSANDRA_KEYSPACE'', PStr ''ks1'')]\<rparr>"

definition no_config_app :: app_t where
  "no_config_app = \<lparr>config = [(''CASSANDRA_HOSTS'', PList []),
                              (''CASSANDRA_KEYSPACE'', PStr '''')]\<rparr>"


text \<open>
  The hierarchy of the specification's example: an abstract \<open>A\<close> with the concrete
  subclasses \<open>B\<close> and \<open>C\<close>, and a concrete \<open>D\<close> directly under the base.
\<close>

definition example_classes :: "cls list" where
  "example_classes =
     [\<lparr>cname = ''Model'', abstract = True, bases = []\<rparr>,
      \<lparr>cname = ''A'', abstract = True, bases = [0]\<rparr>,
      \<lparr>cname = ''B'', abstract = False, bases = [1]\<rparr>,
      \<lparr>cname = ''C'', abstract = False, bases = [1]\<rparr>,
      \<lparr>cname = ''D'', abstract = False, bases = [0]\<rparr>]"

text \<open>A concrete \<open>D\<close> under the base and a concrete \<open>E\<close> under \<open>D\<close>.\<close>

definition chain_classes :: "cls list" where
  "chain_classes =
     [\<lparr>cname = ''Model'', abstract = True, bases = []\<rparr>,
      \<lparr>cname = ''D'', abstract = False, bases = [0]\<rparr>,
      \<lparr>cname = ''E'', abstract = False, bases = [1]\<rparr>]"

text \<open>A concrete \<open>X\<close> that inherits from the two abstract classes \<open>A1\<close> and \<open>A2\<close>.\<close>

definition diamond_classes :: "cls list" where
  "diamond_classes =
     [\<lparr>cname = ''Model'', abstract = True, bases = []\<rparr>,
      \<lparr>cname = ''A1'', abstract = True, bases = [0]\<rparr>,
      \<lparr>cname = ''A2'', abstract = True, bases = [0]\<rparr>,
      \<lparr>cname = ''X'', abstract = False, bases = [1, 2]\<rparr>]"

section \<open>Basic facts\<close>

declare get_subclasses.simps [simp del]

lemmas eval_defs =
  CQLAlchemy_def init_app_def configured_def new_manager_def config_get_def
  setup_connection_def shutdown_connection_def obj_shutdown_def connection_setup_def
  register_hooks_def fresh_process_def driver_loaded_def import_names_def
  models_Model_def explicit_keywords_def Let_def

lemmas example_defs = example_app_def example_manager_def example_args_def bound_process_def

lemmas class_defs = is_abstract_def subclasses_def upt_rec

subsection \<open>Disconnecting and connecting\<close>

lemma kwargs_error_TypeError: "kwargs_error v = Some e \<Longrightarrow> \<exists>k. e = TypeError k"
  by (cases v) (auto split: list.splits)

text \<open>
  \<open>shutdown_connection\<close> shuts down the objects bound to the module's two names and
  reads nothing else of the state.
\<close>

lemma shutdown_connection_eq:
  "shutdown_connection w =
     w\<lparr>live := live w - set (imported w), calls := calls w @ map Shutdown (imported w)\<rparr>"
proof -
  have "A - {x} - {y} = A - {x, y}" for A :: "obj set" and x y
    by blast
  then show ?thesis
    by (auto simp: shutdown_connection_def obj_shutdown_def imported_def split: option.splits)
qed

lemma imported_shutdown_connection [simp]: "imported (shutdown_connection w) = imported w"
  by (simp add: shutdown_connection_eq imported_def)

lemma setup_connection_Inr:
  assumes "setup_connection m w = (Inr u, w1)"
  shows "conn_cluster w1 = Some (Cluster (next_obj w))"
    and "conn_session w1 = Some (Session (next_obj w))"
    and "live w1 = (live w - set (imported w)) \<union> {Cluster (next_obj w), Session (next_obj w)}"
    and "next_obj w1 = Suc (next_obj w)"
  using assms
  by (auto simp: setup_connection_def connection_setup_def Let_def shutdown_connection_eq
      split: option.splits if_splits)

lemma setup_connection_imported: "imported (snd (setup_connection m w)) = imported w"
  by (auto simp: setup_connection_def connection_setup_def Let_def shutdown_connection_eq
      imported_def split: option.splits if_splits)

lemma setup_connection_live: "live w - set (imported w) \<subseteq> live (snd (setup_connection m w))"
  by (auto simp: setup_connection_def connection_setup_def Let_def shutdown_connection_eq
      split: option.splits if_splits)

lemma next_obj_setup_connection: "next_obj w \<le> next_obj (snd (setup_connection m w))"
  by (auto simp: setup_connection_def connection_setup_def Let_def shutdown_connection_eq
      split: option.splits)

lemma setup_connection_keyspace:
  "m_keyspace m = Some k \<Longrightarrow> DEFAULT_KEYSPACE w = k \<Longrightarrow>
     DEFAULT_KEYSPACE (snd (setup_connection m w)) = k"
  by (auto simp: setup_connection_def connection_setup_def Let_def shutdown_connection_eq
      split: option.splits)

subsection \<open>Synchronising\<close>

lemma sync_table_fold:
  "foldl (\<lambda>w1 model. sync_table model w1) w xs = w\<lparr>calls := calls w @ map SyncTable xs\<rparr>"
  by (induction xs arbitrary: w) (simp_all add: sync_table_def)

lemma sync_db_eq:
  "sync_db m w = w\<lparr>calls := calls w @ map SyncTable (get_subclasses (classes w) (Model m))\<rparr>"
  by (simp add: sync_db_def sync_table_fold)

lemma calls_since_sync_db:
  "calls_since w (sync_db m w) = map SyncTable (get_subclasses (classes w) (Model m))"
  by (simp add: calls_since_def sync_db_eq)

lemma count_list_SyncTable: "count_list (map SyncTable xs) (SyncTable x) = count_list xs x"
  by (induction xs) simp_all

subsection \<open>Binding\<close>

lemma register_hooks_fields [simp]:
  "imported (register_hooks w) = imported w"
  "live (register_hooks w) = live w"
  "calls (register_hooks w) = calls w"
  "next_obj (register_hooks w) = next_obj w"
  "setup_raises (register_hooks w) = setup_raises w"
  "setup_sets_keyspace (register_hooks w) = setup_sets_keyspace w"
  "DEFAULT_KEYSPACE (register_hooks w) = DEFAULT_KEYSPACE w"
  "conn_cluster (register_hooks w) = conn_cluster w"
  "conn_session (register_hooks w) = conn_session w"
  "classes (register_hooks w) = classes w"
  by (simp_all add: register_hooks_def imported_def Let_def)

text \<open>The world after \<open>init_app\<close>: untouched, or what \<open>setup_connection\<close> made of it.\<close>

lemma init_app_world:
  "snd (snd (init_app a m w)) = w \<or>
   (\<exists>m1. snd (snd (init_app a m w)) = snd (setup_connection m1 (register_hooks w)))"
proof (cases "map_of (config a) ''CASSANDRA_HOSTS''")
  case None
  then show ?thesis by (simp add: init_app_def)
next
  case h: (Some h)
  show ?thesis
  proof (cases "map_of (config a) ''CASSANDRA_KEYSPACE''")
    case None
    then show ?thesis using h by (simp add: init_app_def)
  next
    case k: (Some k)
    show ?thesis
    proof (cases "\<not> truthy h \<and> truthy k")
      case True
      then show ?thesis using h k by (simp add: init_app_def)
    next
      case False
      then have "snd (snd (init_app a m w)) =
                 snd (setup_connection (configured a h k m) (register_hooks w))"
        using h k by (auto simp: init_app_def split: prod.splits)
      then show ?thesis by blast
    qed
  qed
qed

lemma init_app_imported: "imported (snd (snd (init_app a m w))) = imported w"
  using init_app_world [of a m w] setup_connection_imported [of _ "register_hooks w"]
  by auto

lemma init_app_live: "live w - set (imported w) \<subseteq> live (snd (snd (init_app a m w)))"
proof -
  consider "snd (snd (init_app a m w)) = w"
    | m1 where "snd (snd (init_app a m w)) = snd (setup_connection m1 (register_hooks w))"
    using init_app_world [of a m w] by blast
  then show ?thesis
  proof cases
    case 1
    then show ?thesis by auto
  next
    case 2
    then show ?thesis using setup_connection_live [of "register_hooks w" m1] by simp
  qed
qed

lemma next_obj_init_app: "next_obj w \<le> next_obj (snd (snd (init_app a m w)))"
proof -
  consider "snd (snd (init_app a m w)) = w"
    | m1 where "snd (snd (init_app a m w)) = snd (setup_connection m1 (register_hooks w))"
    using init_app_world [of a m w] by blast
  then show ?thesis
  proof cases
    case 1
    then show ?thesis by simp
  next
    case 2
    then show ?thesis using next_obj_setup_connection [of "register_hooks w" m1] by simp
  qed
qed

text \<open>\<^verbatim>\<open>NoConfig\<close> is raised exactly when the hosts are falsy and the keyspace is truthy.\<close>

lemma setup_connection_not_NoConfig: "fst (setup_connection m w) \<noteq> Inl NoConfig"
  by (auto simp: setup_connection_def connection_setup_def Let_def
      split: option.splits dest: kwargs_error_TypeError)

lemma init_app_NoConfig_iff:
  "fst (init_app a m w) = Inl NoConfig \<longleftrightarrow>
     (\<exists>h k. map_of (config a) ''CASSANDRA_HOSTS'' = Some h \<and>
            map_of (config a) ''CASSANDRA_KEYSPACE'' = Some k \<and> \<not> truthy h \<and> truthy k)"
proof (cases "map_of (config a) ''CASSANDRA_HOSTS''")
  case None
  then show ?thesis by (simp add: init_app_def)
next
  case h: (Some h)
  show ?thesis
  proof (cases "map_of (config a) ''CASSANDRA_KEYSPACE''")
    case None
    then show ?thesis using h by (simp add: init_app_def)
  next
    case k: (Some k)
    show ?thesis
      using h k setup_connection_not_NoConfig [of "configured a h k m" "register_hooks w"]
      by (auto simp: init_app_def split: prod.splits)
  qed
qed

text \<open>\<open>init_app\<close> never assigns \<^verbatim>\<open>self.app\<close>; only the constructor does.\<close>

lemma init_app_keeps_app: "app (fst (snd (init_app a m w))) = app m"
  by (auto simp: init_app_def configured_def split: option.splits prod.splits)

lemma example_bind:
  "CQLAlchemy (Some example_app) fresh_process = (Inr example_manager, bound_process)"
  by (simp add: eval_defs example_defs)

subsection \<open>Switching the keyspace\<close>

lemma set_keyspace_truthy:
  "truthy k \<Longrightarrow>
     set_keyspace k m w = (Inr (), m\<lparr>m_keyspace := Some k\<rparr>, w\<lparr>DEFAULT_KEYSPACE := k\<rparr>)"
  by (simp add: set_keyspace_def)

lemma set_keyspace_falsy:
  "\<not> truthy kn \<Longrightarrow> app m = Some a \<Longrightarrow> map_of (config a) ''CASSANDRA_KEYSPACE'' = Some k \<Longrightarrow>
     set_keyspace kn m w = (Inr (), m\<lparr>m_keyspace := Some k\<rparr>, w\<lparr>DEFAULT_KEYSPACE := k\<rparr>)"
  by (simp add: set_keyspace_def)

text \<open>
  An object made by \<^verbatim>\<open>CQLAlchemy()\<close> and bound by \<^verbatim>\<open>init_app(app)\<close> has no
  \<^verbatim>\<open>self.app\<close>: the reset raises.
\<close>

lemma set_keyspace_without_app:
  "app m = None \<Longrightarrow> \<not> truthy kn \<Longrightarrow>
     set_keyspace kn m w = (Inl (AttributeError ''config''), m, w)"
  by (simp add: set_keyspace_def)

lemma set_keyspace_imported: "imported (snd (snd (set_keyspace k m w))) = imported w"
  by (auto simp: set_keyspace_def Let_def imported_def split: option.splits)

subsection \<open>Sequences of calls\<close>

lemma run_op_imported: "imported (snd (run_op x s)) = imported (snd s)"
proof (cases s)
  case (Pair m w)
  show ?thesis
  proof (cases x)
    case OpShutdown
    then show ?thesis using Pair by simp
  next
    case OpSetup
    then show ?thesis using Pair by (simp add: setup_connection_imported)
  next
    case OpSyncDb
    then show ?thesis using Pair by (simp add: sync_db_eq imported_def)
  next
    case (OpSetKeyspace k)
    then show ?thesis using Pair by (simp add: set_keyspace_imported)
  next
    case (OpInitApp a)
    then show ?thesis using Pair by (simp add: init_app_imported)
  qed
qed

lemma run_ops_imported: "imported (snd (run_ops xs s)) = imported (snd s)"
  by (induction xs arbitrary: s) (simp_all add: run_op_imported)

text \<open>No call takes an object out of \<open>live\<close> unless a module name is bound to it.\<close>

lemma run_op_live: "live (snd s) - set (imported (snd s)) \<subseteq> live (snd (run_op x s))"
proof (cases s)
  case (Pair m w)
  show ?thesis
  proof (cases x)
    case OpShutdown
    then show ?thesis using Pair by (simp add: shutdown_connection_eq)
  next
    case OpSetup
    then show ?thesis using Pair setup_connection_live [of w m] by simp
  next
    case OpSyncDb
    then show ?thesis using Pair by (auto simp: sync_db_eq)
  next
    case (OpSetKeyspace k)
    then show ?thesis using Pair by (auto simp: set_keyspace_def Let_def split: option.splits)
  next
    case (OpInitApp a)
    then show ?thesis using Pair init_app_live [of w a m] by simp
  qed
qed

lemma run_ops_live: "live (snd s) - set (imported (snd s)) \<subseteq> live (snd (run_ops xs s))"
proof (induction xs arbitrary: s)
  case Nil
  then show ?case by auto
next
  case (Cons x xs)
  have "live (snd s) - set (imported (snd s))
          \<subseteq> live (snd (run_op x s)) - set (imported (snd (run_op x s)))"
    using run_op_live [of s x] by (auto simp: run_op_imported)
  also have "\<dots> \<subseteq> live (snd (run_ops xs (run_op x s)))"
    by (rule Cons.IH)
  finally show ?case by simp
qed

lemma next_obj_run_op: "next_obj (snd s) \<le> next_obj (snd (run_op x s))"
proof (cases s)
  case (Pair m w)
  show ?thesis
  proof (cases x)
    case OpShutdown
    then show ?thesis using Pair by (simp add: shutdown_connection_eq)
  next
    case OpSetup
    then show ?thesis using Pair by (simp add: next_obj_setup_connection)
  next
    case OpSyncDb
    then show ?thesis using Pair by (simp add: sync_db_eq)
  next
    case (OpSetKeyspace k)
    then show ?thesis using Pair by (auto simp: set_keyspace_def Let_def split: option.splits)
  next
    case (OpInitApp a)
    then show ?thesis using Pair by (simp add: next_obj_init_app)
  qed
qed

text \<open>
  \<open>names_bound_before\<close> holds after the import statement in a process whose handle
  was allocated by the driver, and every call keeps it.
\<close>

lemma names_bound_before_import:
  assumes "\<And>c. conn_cluster w = Some c \<Longrightarrow> obj_id c < next_obj w"
    and "\<And>s. conn_session w = Some s \<Longrightarrow> obj_id s < next_obj w"
  shows "names_bound_before (import_names w)"
  using assms
  by (auto simp: names_bound_before_def import_names_def imported_def split: option.splits)

lemma names_bound_before_run_op:
  assumes "names_bound_before (snd s)"
  shows "names_bound_before (snd (run_op x s))"
proof -
  have "obj_id y < next_obj (snd (run_op x s))" if "y \<in> set (imported (snd s))" for y
    using that assms next_obj_run_op [of s x] by (auto simp: names_bound_before_def list_all_iff)
  then show ?thesis
    by (simp add: names_bound_before_def list_all_iff run_op_imported)
qed

lemma names_bound_before_run_ops:
  "names_bound_before (snd s) \<Longrightarrow> names_bound_before (snd (run_ops xs s))"
  by (induction xs arbitrary: s) (simp_all add: names_bound_before_run_op)

text \<open>The calls other than \<open>set_keyspace\<close> and \<open>init_app\<close> keep the keyspace.\<close>

lemma run_op_keyspace:
  "\<not> sets_keyspace x \<Longrightarrow> keyspace_is k s \<Longrightarrow> keyspace_is k (run_op x s)"
  by (cases x; cases s)
     (simp_all add: keyspace_is_def shutdown_connection_eq sync_db_eq setup_connection_keyspace)

lemma run_ops_keyspace:
  "list_all (\<lambda>x. \<not> sets_keyspace x) xs \<Longrightarrow> keyspace_is k s \<Longrightarrow> keyspace_is k (run_ops xs s)"
  by (induction xs arbitrary: s) (simp_all add: run_op_keyspace)

subsection \<open>Subclass discovery\<close>

lemma count_list_flatten:
  "count_list (flatten xss) x = sum_list (map (\<lambda>xs. count_list xs x) xss)"
  by (induction xss) simp_all

lemma length_filter_flatten:
  "length (filter P (flatten xss)) = sum_list (map (\<lambda>xs. length (filter P xs)) xss)"
  by (induction xss) simp_all

lemma distinct_subclasses: "distinct (subclasses tbl c)"
  by (simp add: subclasses_def)

lemma sum_list_indicator:
  "distinct xs \<Longrightarrow>
     sum_list (map (\<lambda>s. if Q s \<and> s = x then 1 else 0) xs) =
     (if x \<in> set xs \<and> Q x then (1::nat) else 0)"
  by (induction xs) auto

lemma two_members:
  assumes "a \<in> set xs" and "b \<in> set xs" and "a \<noteq> b"
  shows "2 \<le> length xs"
proof -
  have "card {a, b} \<le> card (set xs)"
    using assms by (intro card_mono) auto
  then show ?thesis
    using assms(3) card_length [of xs] by simp
qed

text \<open>
  How often a class occurs in the result: once for each time the walk enters an
  abstract class that has it as a concrete direct subclass, and once more when the
  walk starts at the class itself and it is concrete.
\<close>

lemma count_get_subclasses:
  "count_list (get_subclasses tbl c) x =
     length (filter (\<lambda>a. x \<in> set (subclasses tbl a) \<and> \<not> is_abstract tbl x)
              (abstract_walk tbl c)) +
     (if \<not> is_abstract tbl c \<and> c = x then 1 else 0)"
proof (induction tbl c rule: get_subclasses.induct)
  case (1 tbl c)
  let ?P = "\<lambda>a. x \<in> set (subclasses tbl a) \<and> \<not> is_abstract tbl x"
  let ?L = "\<lambda>s. length (filter ?P (abstract_walk tbl s))"
  let ?E = "\<lambda>s. if \<not> is_abstract tbl s \<and> s = x then 1 else 0 :: nat"
  show ?case
  proof (cases "is_abstract tbl c")
    case False
    then show ?thesis
      by (simp add: get_subclasses.simps [of tbl c] abstract_walk.simps [of tbl c]
          del: abstract_walk.simps)
  next
    case True
    have "count_list (get_subclasses tbl c) x =
          sum_list (map (\<lambda>s. count_list (get_subclasses tbl s) x) (subclasses tbl c))"
      using True by (simp add: get_subclasses.simps [of tbl c] count_list_flatten comp_def)
    also have "\<dots> = sum_list (map (\<lambda>s. ?L s + ?E s) (subclasses tbl c))"
      using "1.IH" [OF True]
      by (intro arg_cong [where f = sum_list] map_cong) (simp_all del: abstract_walk.simps)
    also have "\<dots> = sum_list (map ?L (subclasses tbl c)) + sum_list (map ?E (subclasses tbl c))"
      by (simp add: sum_list_addf)
    also have "sum_list (map ?E (subclasses tbl c)) =
               (if x \<in> set (subclasses tbl c) \<and> \<not> is_abstract tbl x then 1 else 0)"
      by (rule sum_list_indicator [OF distinct_subclasses])
    finally show ?thesis
      using True
      by (simp add: abstract_walk.simps [of tbl c] length_filter_flatten comp_def
          del: abstract_walk.simps)
  qed
qed

text \<open>On the specification's example the result is \<open>B\<close>, \<open>C\<close>, \<open>D\<close>, each once.\<close>

lemma get_subclasses_example_classes:
  "get_subclasses example_classes 0 = [2, 3, 4] \<and>
   calls_since (fresh_process\<lparr>classes := example_classes\<rparr>)
     (sync_db (new_manager None) (fresh_process\<lparr>classes := example_classes\<rparr>))
     = [SyncTable 2, SyncTable 3, SyncTable 4]"
  by (simp add: example_classes_def class_defs get_subclasses.simps calls_since_def sync_db_def
      sync_table_def new_manager_def models_Model_def fresh_process_def driver_loaded_def
      import_names_def)

section \<open>The claims\<close>

subsection \<open>C1: an empty host list and \<^verbatim>\<open>NoConfig\<close>\<close>

text \<open>
  C1 says that \<open>init_app\<close> raises \<^verbatim>\<open>NoConfig\<close> for every configuration whose host list
  is empty, whatever the keyspace, and that no connection is set up from it.  The
  docstring of \<^verbatim>\<open>NoConfig\<close> says the same (``Raised when CASSANDRA_HOSTS or
  CASSANDRA_KEYSPACE is not defined'').  The condition of line 51 is true only when the
  hosts are falsy and the keyspace is truthy: with an empty host list and an empty
  keyspace, \<open>init_app\<close> returns without an exception after it has called
  \<^verbatim>\<open>connection.setup\<close> with the empty host list, and the constructor returns the object.
\<close>

theorem init_app_empty_hosts_empty_keyspace:
  "fst (init_app no_config_app (new_manager None) fresh_process) = Inr () \<and>
   calls (snd (snd (init_app no_config_app (new_manager None) fresh_process))) =
     [Setup \<lparr>arg_hosts = PList [], arg_keyspace = PStr '''',
             arg_consistency = PInt 1, arg_lazy_connect = PBool False,
             arg_retry_connect = PBool False, arg_kwargs = PDict []\<rparr>] \<and>
   fst (CQLAlchemy (Some no_config_app) fresh_process) =
     Inr (configured no_config_app (PList []) (PStr '''') (new_manager (Some no_config_app)))"
  by (simp add: eval_defs no_config_app_def)

subsection \<open>C2: connecting twice\<close>

text \<open>
  C2 says that two calls of \<open>setup_connection\<close> in succession leave exactly one live
  connection handle, the first call's client and session having been shut down before
  the second handle is made.  \<open>setup_connection\<close> does call \<open>shutdown_connection\<close>
  first, but that tests the module's own names, which in a process that imported the
  extension before connecting are \<^verbatim>\<open>None\<close> for ever.  After \<^verbatim>\<open>CQLAlchemy(app)\<close> and two
  more calls of \<open>setup_connection\<close>, three handles are live and the driver has received
  three \<^verbatim>\<open>setup\<close> calls and no \<^verbatim>\<open>shutdown\<close>.
\<close>

theorem setup_connection_twice_leaks:
  "fst (setup_connection example_manager bound_process) = Inr () \<and>
   fst (setup_connection example_manager
          (snd (setup_connection example_manager bound_process))) = Inr () \<and>
   live (snd (setup_connection example_manager
          (snd (setup_connection example_manager bound_process))))
     = {Cluster 0, Session 0, Cluster 1, Session 1, Cluster 2, Session 2} \<and>
   live_handles (snd (setup_connection example_manager
          (snd (setup_connection example_manager bound_process))))
     = {0, 1, 2} \<and>
   calls (snd (setup_connection example_manager
          (snd (setup_connection example_manager bound_process))))
     = [Setup example_args, Setup example_args, Setup example_args]"
  by (simp add: eval_defs example_defs live_handles_def insert_commute numeral_2_eq_2)

subsection \<open>C3: what \<open>shutdown_connection\<close> tests\<close>

text \<open>
  C3: \<open>shutdown_connection\<close> decides by the values the names \<open>cluster\<close> and \<open>session\<close>
  were bound to when the module was imported, not by the current connection.  The
  calls it makes are the shutdowns of exactly those objects.  So for a connection that
  \<open>setup_connection\<close> establishes after the import, and after any further calls, a
  call of \<open>shutdown_connection\<close> invokes no shutdown on that connection's client or
  session, and both stay live.
\<close>

theorem shutdown_connection_import_time_names:
  assumes "names_bound_before w"
    and "setup_connection m w = (Inr u, w1)"
    and "run_ops xs (m1, w1) = (m2, w2)"
  shows "conn_cluster w1 = Some (Cluster (next_obj w)) \<and>
         conn_session w1 = Some (Session (next_obj w)) \<and>
         calls_since w2 (shutdown_connection w2) = map Shutdown (imported w) \<and>
         Shutdown (Cluster (next_obj w)) \<notin> set (calls_since w2 (shutdown_connection w2)) \<and>
         Shutdown (Session (next_obj w)) \<notin> set (calls_since w2 (shutdown_connection w2)) \<and>
         Cluster (next_obj w) \<in> live (shutdown_connection w2) \<and>
         Session (next_obj w) \<in> live (shutdown_connection w2)"
proof -
  let ?c = "Cluster (next_obj w)" and ?s = "Session (next_obj w)"
  note w1 = setup_connection_Inr [OF assms(2)]
  have imp1: "imported w1 = imported w"
    using setup_connection_imported [of m w] assms(2) by simp
  have imp2: "imported w2 = imported w"
    using run_ops_imported [of xs "(m1, w1)"] assms(3) imp1 by simp
  have fresh: "?c \<notin> set (imported w)" "?s \<notin> set (imported w)"
    using assms(1) by (auto simp: names_bound_before_def list_all_iff)
  have "?c \<in> live w1" "?s \<in> live w1"
    by (simp_all add: w1(3))
  then have "?c \<in> live w2" "?s \<in> live w2"
    using run_ops_live [of "(m1, w1)" xs] assms(3) fresh imp1 by auto
  then have live: "?c \<in> live (shutdown_connection w2)" "?s \<in> live (shutdown_connection w2)"
    using fresh imp2 by (simp_all add: shutdown_connection_eq)
  have cs: "calls_since w2 (shutdown_connection w2) = map Shutdown (imported w)"
    by (simp add: calls_since_def shutdown_connection_eq imp2)
  have "Shutdown ?c \<notin> set (map Shutdown (imported w))"
    "Shutdown ?s \<notin> set (map Shutdown (imported w))"
    using fresh by auto
  then show ?thesis
    using live cs w1(1,2) by simp
qed

theorem shutdown_connection_import_time_names_witness:
  "names_bound_before late_process \<and>
   setup_connection example_manager late_process =
     (Inr (), snd (setup_connection example_manager late_process)) \<and>
   run_ops [OpSyncDb, OpSetup]
     (example_manager, snd (setup_connection example_manager late_process)) =
     (example_manager,
      snd (run_ops [OpSyncDb, OpSetup]
             (example_manager, snd (setup_connection example_manager late_process)))) \<and>
   next_obj late_process = 1 \<and>
   imported late_process = [Cluster 0, Session 0] \<and>
   conn_cluster (snd (setup_connection example_manager late_process)) = Some (Cluster 1) \<and>
   conn_session (snd (setup_connection example_manager late_process)) = Some (Session 1) \<and>
   calls_since
     (snd (run_ops [OpSyncDb, OpSetup]
             (example_manager, snd (setup_connection example_manager late_process))))
     (shutdown_connection
        (snd (run_ops [OpSyncDb, OpSetup]
                (example_manager, snd (setup_connection example_manager late_process)))))
     = [Shutdown (Cluster 0), Shutdown (Session 0)] \<and>
   Cluster 1 \<in> live (shutdown_connection
        (snd (run_ops [OpSyncDb, OpSetup]
                (example_manager, snd (setup_connection example_manager late_process))))) \<and>
   Session 1 \<in> live (shutdown_connection
        (snd (run_ops [OpSyncDb, OpSetup]
                (example_manager, snd (setup_connection example_manager late_process)))))"
proof -
  let ?w1 = "snd (setup_connection example_manager late_process)"
  let ?s2 = "run_ops [OpSyncDb, OpSetup] (example_manager, ?w1)"
  have a: "names_bound_before late_process"
    by (simp add: names_bound_before_def imported_def eval_defs example_defs late_process_def)
  have b: "setup_connection example_manager late_process = (Inr (), ?w1)"
    by (simp add: eval_defs example_defs late_process_def)
  have c: "?s2 = (example_manager, snd ?s2)"
    by simp
  have d: "next_obj late_process = 1" "imported late_process = [Cluster 0, Session 0]"
    by (simp_all add: imported_def eval_defs example_defs late_process_def)
  show ?thesis
    using shutdown_connection_import_time_names [OF a b c] a b c d by simp
qed

subsection \<open>C4: which classes \<open>sync_db\<close> synchronises\<close>

text \<open>
  C4 says that \<open>sync_db\<close> synchronises every concrete subclass of the base,
  transitively; the docstring of \<^verbatim>\<open>get_subclasses\<close> says ``get all the non abstract
  subclasses of cls''.  \<open>get_subclasses\<close> stops at the first concrete class of each
  branch: with a concrete \<open>D\<close> under the base and a concrete \<open>E\<close> under \<open>D\<close>, it returns
  \<open>D\<close> alone and \<open>sync_db\<close> never synchronises \<open>E\<close>.  (On the claim's own example the
  result is as the claim says: \<open>get_subclasses_example_classes\<close>.)
\<close>

theorem get_subclasses_stops_at_concrete:
  "subclasses chain_classes 0 = [1] \<and>
   subclasses chain_classes 1 = [2] \<and>
   \<not> is_abstract chain_classes 1 \<and>
   \<not> is_abstract chain_classes 2 \<and>
   get_subclasses chain_classes 0 = [1] \<and>
   calls_since (fresh_process\<lparr>classes := chain_classes\<rparr>)
     (sync_db (new_manager None) (fresh_process\<lparr>classes := chain_classes\<rparr>)) = [SyncTable 1]"
  by (simp add: chain_classes_def class_defs get_subclasses.simps calls_since_def sync_db_def
      sync_table_def new_manager_def models_Model_def fresh_process_def driver_loaded_def
      import_names_def)

subsection \<open>C5: the manager after a failed bind\<close>

text \<open>
  C5 as stated, that a bind which raises \<^verbatim>\<open>NoConfig\<close> leaves the manager object
  unchanged, is false: the six assignments of lines 44-49 come before the test of line
  51.  An object made by \<^verbatim>\<open>CQLAlchemy()\<close> and bound to an application with an empty
  host list has its \<^verbatim>\<open>_hosts_\<close> set although \<open>init_app\<close> raised.
\<close>

theorem init_app_NoConfig_changes_manager:
  "fst (init_app no_hosts_app (new_manager None) fresh_process) = Inl NoConfig \<and>
   fst (snd (init_app no_hosts_app (new_manager None) fresh_process)) \<noteq> new_manager None \<and>
   m_hosts (new_manager None) = None \<and>
   m_hosts (fst (snd (init_app no_hosts_app (new_manager None) fresh_process))) =
     Some (PList [])"
  by (simp add: eval_defs no_hosts_app_def)

text \<open>
  C5 as amended: when \<open>init_app\<close> raises \<^verbatim>\<open>NoConfig\<close>, the bind stops there.  Nothing
  process-wide has changed (no receiver registered, no driver call made), and when the
  bind was started by the constructor the caller gets the exception and no object.
  The object \<open>init_app\<close> was called on has its six configuration attributes set to the
  values read from the configuration, and its other attributes as before.
\<close>

theorem init_app_NoConfig_state:
  assumes "fst (init_app a m w) = Inl NoConfig"
  shows "\<exists>h k. map_of (config a) ''CASSANDRA_HOSTS'' = Some h \<and>
           map_of (config a) ''CASSANDRA_KEYSPACE'' = Some k \<and>
           init_app a m w = (Inl NoConfig, configured a h k m, w) \<and>
           CQLAlchemy (Some a) w = (Inl NoConfig, w)"
proof -
  from assms obtain h k where hk:
    "map_of (config a) ''CASSANDRA_HOSTS'' = Some h"
    "map_of (config a) ''CASSANDRA_KEYSPACE'' = Some k" "\<not> truthy h" "truthy k"
    by (auto simp: init_app_NoConfig_iff)
  then have "init_app a m1 w = (Inl NoConfig, configured a h k m1, w)" for m1
    by (simp add: init_app_def)
  then show ?thesis
    using hk by (simp add: CQLAlchemy_def)
qed

theorem init_app_NoConfig_state_witness:
  "fst (init_app no_hosts_app (new_manager None) fresh_process) = Inl NoConfig \<and>
   init_app no_hosts_app (new_manager None) fresh_process =
     (Inl NoConfig, configured no_hosts_app (PList []) (PStr ''ks1'') (new_manager None),
      fresh_process) \<and>
   CQLAlchemy (Some no_hosts_app) fresh_process = (Inl NoConfig, fresh_process)"
proof -
  have h: "fst (init_app no_hosts_app (new_manager None) fresh_process) = Inl NoConfig"
    by (simp add: init_app_def no_hosts_app_def)
  have c: "map_of (config no_hosts_app) ''CASSANDRA_HOSTS'' = Some (PList [])"
    "map_of (config no_hosts_app) ''CASSANDRA_KEYSPACE'' = Some (PStr ''ks1'')"
    by (simp_all add: no_hosts_app_def)
  show ?thesis
    using init_app_NoConfig_state [OF h] h c by auto
qed

subsection \<open>C6: a successful bind\<close>




subsection \<open>C7: switching the keyspace\<close>

text \<open>
  On an object that holds the application (\<^verbatim>\<open>self.app\<close>, which only the constructor
  assigns) the method works as its docstring says: without an argument it sets the
  default keyspace and the manager's keyspace to the configured one; with a truthy
  argument it sets both to the argument, and both keep that value through any sequence
  of \<open>setup_connection\<close>, \<open>shutdown_connection\<close> and \<open>sync_db\<close> calls.
\<close>

lemma set_keyspace_holding_app:
  "(app m = Some a \<and> map_of (config a) ''CASSANDRA_KEYSPACE'' = Some kc \<longrightarrow>
      set_keyspace PNone m w =
        (Inr (), m\<lparr>m_keyspace := Some kc\<rparr>, w\<lparr>DEFAULT_KEYSPACE := kc\<rparr>)) \<and>
   (truthy k \<longrightarrow>
      set_keyspace k m w = (Inr (), m\<lparr>m_keyspace := Some k\<rparr>, w\<lparr>DEFAULT_KEYSPACE := k\<rparr>) \<and>
      (list_all (\<lambda>x. \<not> sets_keyspace x) xs \<longrightarrow>
         keyspace_is k (run_ops xs (snd (set_keyspace k m w)))))"
proof -
  have "keyspace_is k (snd (set_keyspace k m w))" if "truthy k"
    using that by (simp add: set_keyspace_truthy keyspace_is_def)
  then show ?thesis
    by (simp add: set_keyspace_truthy set_keyspace_falsy run_ops_keyspace)
qed

text \<open>
  C7 says that \<open>set_keyspace\<close> without an argument sets the default keyspace and the
  manager's keyspace to the keyspace of the application's configuration; the method's
  docstring says that a temporary change is undone by calling it ``again without any
  arguments''.  \<open>set_keyspace\<close> reads the configuration through \<^verbatim>\<open>self.app\<close>, which
  \<open>init_app\<close> never assigns.  After \<^verbatim>\<open>db = CQLAlchemy()\<close>, \<^verbatim>\<open>db.init_app(app)\<close> and
  \<^verbatim>\<open>db.set_keyspace("other")\<close>, the call \<^verbatim>\<open>db.set_keyspace()\<close> raises
  \<^verbatim>\<open>AttributeError\<close> and both keyspaces stay \<^verbatim>\<open>"other"\<close>, although the application's
  configuration has the keyspace \<^verbatim>\<open>"ks1"\<close>.
\<close>

theorem set_keyspace_after_init_app_raises:
  "CQLAlchemy None fresh_process = (Inr (new_manager None), fresh_process) \<and>
   init_app example_app (new_manager None) fresh_process =
     (Inr (), unheld_manager, bound_process) \<and>
   app unheld_manager = None \<and>
   map_of (config example_app) ''CASSANDRA_KEYSPACE'' = Some (PStr ''ks1'') \<and>
   set_keyspace (PStr ''other'') unheld_manager bound_process =
     (Inr (), unheld_manager\<lparr>m_keyspace := Some (PStr ''other'')\<rparr>,
      bound_process\<lparr>DEFAULT_KEYSPACE := PStr ''other''\<rparr>) \<and>
   set_keyspace PNone (unheld_manager\<lparr>m_keyspace := Some (PStr ''other'')\<rparr>)
       (bound_process\<lparr>DEFAULT_KEYSPACE := PStr ''other''\<rparr>) =
     (Inl (AttributeError ''config''),
      unheld_manager\<lparr>m_keyspace := Some (PStr ''other'')\<rparr>,
      bound_process\<lparr>DEFAULT_KEYSPACE := PStr ''other''\<rparr>)"
  by (simp add: eval_defs example_defs unheld_manager_def set_keyspace_def)

subsection \<open>C8: disconnecting twice\<close>

text \<open>
  C8: \<open>shutdown_connection\<close> cannot raise, and it is idempotent.  A second call leaves
  the state the first one left; a call when no client or session is live changes
  nothing; and when the module's two names are \<^verbatim>\<open>None\<close> it makes no driver call
  either.  (The state is compared without the log of driver calls: a name bound to an
  object makes each call repeat that object's \<^verbatim>\<open>shutdown()\<close>, which does nothing the
  second time.)
\<close>

theorem shutdown_connection_idempotent:
  "forget_calls (shutdown_connection (shutdown_connection w)) =
     forget_calls (shutdown_connection w) \<and>
   (live w = {} \<longrightarrow> forget_calls (shutdown_connection w) = forget_calls w) \<and>
   (cluster w = None \<and> session w = None \<longrightarrow> shutdown_connection w = w)"
  by (auto simp: shutdown_connection_eq forget_calls_def imported_def split: option.splits)

theorem shutdown_connection_idempotent_witness:
  "live fresh_process = {} \<and> cluster fresh_process = None \<and> session fresh_process = None \<and>
   forget_calls (shutdown_connection (shutdown_connection fresh_process)) =
     forget_calls (shutdown_connection fresh_process) \<and>
   forget_calls (shutdown_connection fresh_process) = forget_calls fresh_process \<and>
   shutdown_connection fresh_process = fresh_process"
proof -
  have a: "live fresh_process = {}" "cluster fresh_process = None"
    "session fresh_process = None"
    by (simp_all add: fresh_process_def driver_loaded_def import_names_def)
  show ?thesis
    using shutdown_connection_idempotent [of fresh_process] a by blast
qed

subsection \<open>C9: a class found more than once\<close>

text \<open>
  C9: \<open>get_subclasses\<close> can return a concrete class more than once.  Started at an
  abstract class, it returns a concrete class once for each time the walk enters an
  abstract class that has it as a direct subclass.  So a concrete class that is a
  direct subclass of two distinct abstract classes of the walk occurs at least twice in
  the result, and \<open>sync_db\<close> calls the table synchronisation on it at least twice.
\<close>

theorem get_subclasses_repeats:
  assumes "\<not> is_abstract tbl x" and "is_abstract tbl c"
  shows "count_list (get_subclasses tbl c) x =
           length (filter (\<lambda>a. x \<in> set (subclasses tbl a)) (abstract_walk tbl c)) \<and>
         (a1 \<in> set (abstract_walk tbl c) \<and> a2 \<in> set (abstract_walk tbl c) \<and> a1 \<noteq> a2 \<and>
          x \<in> set (subclasses tbl a1) \<and> x \<in> set (subclasses tbl a2) \<longrightarrow>
            2 \<le> count_list (get_subclasses tbl c) x \<and>
            (classes w = tbl \<and> Model m = c \<longrightarrow>
               2 \<le> count_list (calls_since w (sync_db m w)) (SyncTable x)))"
proof -
  let ?F = "filter (\<lambda>a. x \<in> set (subclasses tbl a)) (abstract_walk tbl c)"
  have cnt: "count_list (get_subclasses tbl c) x = length ?F"
    using assms by (simp add: count_get_subclasses del: abstract_walk.simps)
  have "2 \<le> length ?F"
    if "a1 \<in> set (abstract_walk tbl c)" "a2 \<in> set (abstract_walk tbl c)" "a1 \<noteq> a2"
       "x \<in> set (subclasses tbl a1)" "x \<in> set (subclasses tbl a2)"
    using that by (intro two_members [of a1 _ a2]) (simp_all del: abstract_walk.simps)
  then show ?thesis
    using cnt by (auto simp: calls_since_sync_db count_list_SyncTable simp del: abstract_walk.simps)
qed

theorem get_subclasses_repeats_witness:
  "\<not> is_abstract diamond_classes 3 \<and> is_abstract diamond_classes 0 \<and>
   1 \<in> set (abstract_walk diamond_classes 0) \<and>
   2 \<in> set (abstract_walk diamond_classes 0) \<and> (1::nat) \<noteq> 2 \<and>
   3 \<in> set (subclasses diamond_classes 1) \<and> 3 \<in> set (subclasses diamond_classes 2) \<and>
   classes (fresh_process\<lparr>classes := diamond_classes\<rparr>) = diamond_classes \<and>
   Model (new_manager None) = 0 \<and>
   count_list (get_subclasses diamond_classes 0) 3 =
     length (filter (\<lambda>a. 3 \<in> set (subclasses diamond_classes a))
              (abstract_walk diamond_classes 0)) \<and>
   2 \<le> count_list (get_subclasses diamond_classes 0) 3 \<and>
   2 \<le> count_list
         (calls_since (fresh_process\<lparr>classes := diamond_classes\<rparr>)
            (sync_db (new_manager None) (fresh_process\<lparr>classes := diamond_classes\<rparr>)))
         (SyncTable 3)"
proof -
  have a: "\<not> is_abstract diamond_classes 3" and b: "is_abstract diamond_classes 0"
    by (simp_all add: diamond_classes_def is_abstract_def)
  have c: "1 \<in> set (abstract_walk diamond_classes 0)"
    "2 \<in> set (abstract_walk diamond_classes 0)" "(1::nat) \<noteq> 2"
    "3 \<in> set (subclasses diamond_classes 1)" "3 \<in> set (subclasses diamond_classes 2)"
    by (simp_all add: diamond_classes_def class_defs)
  have d: "classes (fresh_process\<lparr>classes := diamond_classes\<rparr>) = diamond_classes"
    "Model (new_manager None) = 0"
    by (simp_all add: new_manager_def models_Model_def)
  show ?thesis
    using get_subclasses_repeats
      [OF a b, of 1 2 "fresh_process\<lparr>classes := diamond_classes\<rparr>" "new_manager None"]
      a b c d
    by blast
qed

subsection \<open>C10: a falsy keyspace argument\<close>



end
